theory Spec2Isabelle
  imports Complex_Main "HOL-Library.Word"
begin

section \<open>GafferVDB: the VDBObject grid collection\<close>

text \<open>
  A shallow embedding of \<^verbatim>\<open>src/GafferVDB/VDBObject.cpp\<close>. The object owns a vector of
  shared pointers to OpenVDB grids. Pointers are addresses into an explicit heap of grids,
  because the source compares, shares and mutates grids through them. OpenVDB, Imath,
  boost and the IECore base class are libraries outside the repository: what the source
  calls in them is taken as a parameter of the function that calls it, except for the
  few library behaviours the control flow of the source depends on, which are written out
  and marked as such.
\<close>

subsection \<open>Data model\<close>

type_synonym byte = "8 word"
type_synonym int64 = "64 word"
type_synonym int32 = "32 word"

datatype 'a Vec3 = Vec3 (vx: 'a) (vy: 'a) (vz: 'a)

datatype 'a Box = Box (bmin: "'a Vec3") (bmax: "'a Vec3")

text \<open>
  \<^verbatim>\<open>openvdb::Metadata\<close>: the four typed kinds the source casts to, and every other kind,
  which carries the name its \<^verbatim>\<open>typeName()\<close> reports.
\<close>

datatype Metadata =
    StringMetadata string
  | Int64Metadata int64
  | BoolMetadata bool
  | Vec3IMetadata "int32 Vec3"
  | OtherMetadata string

fun typeName :: "Metadata \<Rightarrow> string" where
  "typeName (StringMetadata _) = ''string''"
| "typeName (Int64Metadata _) = ''int64''"
| "typeName (BoolMetadata _) = ''bool''"
| "typeName (Vec3IMetadata _) = ''vec3i''"
| "typeName (OtherMetadata t) = t"

text \<open>
  \<^verbatim>\<open>openvdb::GridBase\<close>: a name, a metadata map (a \<^verbatim>\<open>std::map\<close>, listed in the order
  its iterator visits it), and the tree and transform, opaque here.
\<close>

record ('t, 'x) GridBase =
  getName :: string
  metaMap :: "(string \<times> Metadata) list"
  tree :: 't
  transform :: 'x

type_synonym addr = nat

type_synonym ('t, 'x) heap = "('t, 'x) GridBase list"

text \<open>
  The object: the state of its base class \<^verbatim>\<open>IECore::VisibleRenderable\<close> (opaque) and
  \<^verbatim>\<open>m_grids\<close>, the vector of grid pointers.
\<close>

record 'b VDBObject =
  base :: 'b
  m_grids :: "addr list"

text \<open>An \<^verbatim>\<open>IECore::Object\<close> handed in by the host: a VDBObject or an object of another kind.\<close>

datatype 'b Object = IsVDBObject "'b VDBObject" | OtherObject 'b

fun runTimeCast :: "'b Object \<Rightarrow> 'b VDBObject option" where
  "runTimeCast (IsVDBObject v) = Some v"
| "runTimeCast (OtherObject _) = None"

subsection \<open>Construction, lookup, insertion and removal\<close>

definition VDBObject_empty :: "'b \<Rightarrow> 'b VDBObject" where
  "VDBObject_empty b = \<lparr>base = b, m_grids = []\<rparr>"

text \<open>
  The constructor from a file name takes what \<^verbatim>\<open>file.getGrids()\<close> returns: the grids of
  the file are allocated at the end of the heap and \<^verbatim>\<open>m_grids\<close> points to them, in file
  order and unfiltered.
\<close>

definition VDBObject_from_file ::
  "'b \<Rightarrow> ('t, 'x) heap \<Rightarrow> ('t, 'x) GridBase list \<Rightarrow> ('t, 'x) heap \<times> 'b VDBObject" where
  "VDBObject_from_file b h fileGrids =
     (h @ fileGrids, \<lparr>base = b, m_grids = [length h ..< length h + length fileGrids]\<rparr>)"

fun findGrid_loop :: "('t, 'x) heap \<Rightarrow> addr list \<Rightarrow> string \<Rightarrow> addr option" where
  "findGrid_loop h [] name = None"
| "findGrid_loop h (grid # rest) name =
     (if getName (h ! grid) = name then Some grid else findGrid_loop h rest name)"

definition findGrid :: "('t, 'x) heap \<Rightarrow> 'b VDBObject \<Rightarrow> string \<Rightarrow> addr option" where
  "findGrid h obj name = findGrid_loop h (m_grids obj) name"

definition gridNames :: "('t, 'x) heap \<Rightarrow> 'b VDBObject \<Rightarrow> string list" where
  "gridNames h obj = map (\<lambda>grid. getName (h ! grid)) (m_grids obj)"

fun removeGrid_loop :: "('t, 'x) heap \<Rightarrow> addr list \<Rightarrow> string \<Rightarrow> addr list" where
  "removeGrid_loop h [] name = []"
| "removeGrid_loop h (it # rest) name =
     (if getName (h ! it) = name then rest else it # removeGrid_loop h rest name)"

definition removeGrid :: "('t, 'x) heap \<Rightarrow> 'b VDBObject \<Rightarrow> string \<Rightarrow> 'b VDBObject" where
  "removeGrid h obj name = obj\<lparr>m_grids := removeGrid_loop h (m_grids obj) name\<rparr>"

definition insertGrid :: "('t, 'x) heap \<Rightarrow> 'b VDBObject \<Rightarrow> addr \<Rightarrow> 'b VDBObject" where
  "insertGrid h obj grid =
     (let obj' = removeGrid h obj (getName (h ! grid))
      in obj'\<lparr>m_grids := m_grids obj' @ [grid]\<rparr>)"

text \<open>Every grid pointer of the object points into the heap.\<close>

definition grids_valid :: "('t, 'x) heap \<Rightarrow> 'b VDBObject \<Rightarrow> bool" where
  "grids_valid h obj = (\<forall>a \<in> set (m_grids obj). a < length h)"

subsection \<open>Bounds\<close>

text \<open>
  \<^verbatim>\<open>MetaMap::metaValue<T>(name)\<close> of OpenVDB throws \<^verbatim>\<open>LookupError\<close> when the map has no
  entry of that name and \<^verbatim>\<open>TypeError\<close> when the entry is of another type.
\<close>

datatype vdb_exception = LookupError string | TypeError string

definition metaValue_Vec3i :: "('t, 'x) GridBase \<Rightarrow> string \<Rightarrow> vdb_exception + int32 Vec3" where
  "metaValue_Vec3i grid name =
     (case map_of (metaMap grid) name of
        None \<Rightarrow> Inl (LookupError name)
      | Some (Vec3IMetadata v) \<Rightarrow> Inr v
      | Some _ \<Rightarrow> Inl (TypeError name))"

definition metaValue_int64 :: "('t, 'x) GridBase \<Rightarrow> string \<Rightarrow> vdb_exception + int64" where
  "metaValue_int64 grid name =
     (case map_of (metaMap grid) name of
        None \<Rightarrow> Inl (LookupError name)
      | Some (Int64Metadata v) \<Rightarrow> Inr v
      | Some _ \<Rightarrow> Inl (TypeError name))"

text \<open>The metadata keys \<^verbatim>\<open>GridBase::META_FILE_BBOX_MIN\<close> and \<^verbatim>\<open>META_FILE_BBOX_MAX\<close> of OpenVDB.\<close>

definition META_FILE_BBOX_MIN :: string where
  "META_FILE_BBOX_MIN = ''file_bbox_min''"

definition META_FILE_BBOX_MAX :: string where
  "META_FILE_BBOX_MAX = ''file_bbox_max''"

definition map_Vec3 :: "('a \<Rightarrow> 'c) \<Rightarrow> 'a Vec3 \<Rightarrow> 'c Vec3" where
  "map_Vec3 f v = Vec3 (f (vx v)) (f (vy v)) (f (vz v))"

text \<open>
  \<^verbatim>\<open>worldBound<T>(grid, padding)\<close>. The index-space corners are 32-bit integers; taking
  the offset away and adding it is done in double precision, where these values are exact,
  so the index box is a box of rationals. \<open>indexToWorld\<close> is the grid transform's map of
  an index box to a world box of doubles (\<open>'d\<close>), and \<open>toT\<close> the conversion of a double
  to the coordinate type \<open>T\<close> (\<open>'f\<close>).
\<close>

definition worldBound ::
  "('x \<Rightarrow> rat Box \<Rightarrow> 'd Box) \<Rightarrow> ('d \<Rightarrow> 'f) \<Rightarrow> ('t, 'x) GridBase \<Rightarrow> rat \<Rightarrow> vdb_exception + 'f Box" where
  "worldBound indexToWorld toT grid padding =
     (case metaValue_Vec3i grid META_FILE_BBOX_MIN of
        Inl e \<Rightarrow> Inl e
      | Inr mn \<Rightarrow>
     (case metaValue_Vec3i grid META_FILE_BBOX_MAX of
        Inl e \<Rightarrow> Inl e
      | Inr mx \<Rightarrow>
          (let indexBounds =
                 Box (map_Vec3 (\<lambda>c. of_int (sint c) - padding) mn)
                     (map_Vec3 (\<lambda>c. of_int (sint c) + padding) mx);
               worldBounds = indexToWorld (transform grid) indexBounds;
               minBB = bmin worldBounds;
               maxBB = bmax worldBounds
           in Inr (Box (Vec3 (toT (vx minBB)) (toT (vy minBB)) (toT (vz minBB)))
                       (Vec3 (toT (vx maxBB)) (toT (vy maxBB)) (toT (vz maxBB)))))))"

text \<open>
  \<^verbatim>\<open>Imath::Box\<close>: the default constructor makes the empty box, whose minimum is the
  largest and whose maximum is the lowest value of the coordinate type; \<^verbatim>\<open>extendBy\<close>
  lowers each minimum and raises each maximum that the other box exceeds.
\<close>

definition Box_empty :: "'f \<Rightarrow> 'f \<Rightarrow> 'f Box" where
  "Box_empty limits_max limits_min =
     Box (Vec3 limits_max limits_max limits_max) (Vec3 limits_min limits_min limits_min)"

definition extendBy :: "('f::linorder) Box \<Rightarrow> 'f Box \<Rightarrow> 'f Box" where
  "extendBy this box =
     Box (Vec3 (if vx (bmin box) < vx (bmin this) then vx (bmin box) else vx (bmin this))
               (if vy (bmin box) < vy (bmin this) then vy (bmin box) else vy (bmin this))
               (if vz (bmin box) < vz (bmin this) then vz (bmin box) else vz (bmin this)))
         (Vec3 (if vx (bmax box) > vx (bmax this) then vx (bmax box) else vx (bmax this))
               (if vy (bmax box) > vy (bmax this) then vy (bmax box) else vy (bmax this))
               (if vz (bmax box) > vz (bmax this) then vz (bmax box) else vz (bmax this)))"

fun bound_loop ::
  "('x \<Rightarrow> rat Box \<Rightarrow> 'd Box) \<Rightarrow> ('d \<Rightarrow> 'f) \<Rightarrow> ('t, 'x) heap \<Rightarrow> addr list \<Rightarrow> ('f::linorder) Box
     \<Rightarrow> vdb_exception + 'f Box" where
  "bound_loop indexToWorld toT h [] combinedBounds = Inr combinedBounds"
| "bound_loop indexToWorld toT h (grid # rest) combinedBounds =
     (case worldBound indexToWorld toT (h ! grid) (1 / 2) of
        Inl e \<Rightarrow> Inl e
      | Inr gridBounds \<Rightarrow> bound_loop indexToWorld toT h rest (extendBy combinedBounds gridBounds))"

definition bound ::
  "('x \<Rightarrow> rat Box \<Rightarrow> 'd Box) \<Rightarrow> ('d \<Rightarrow> 'f) \<Rightarrow> 'f \<Rightarrow> 'f \<Rightarrow> ('t, 'x) heap \<Rightarrow> 'b VDBObject
     \<Rightarrow> vdb_exception + ('f::linorder) Box" where
  "bound indexToWorld toT limits_max limits_min h obj =
     bound_loop indexToWorld toT h (m_grids obj) (Box_empty limits_max limits_min)"

text \<open>Box \<open>A\<close> lies inside box \<open>B\<close>, coordinate by coordinate.\<close>

definition inside :: "('f::linorder) Box \<Rightarrow> 'f Box \<Rightarrow> bool" where
  "inside A B =
     (vx (bmin B) \<le> vx (bmin A) \<and> vy (bmin B) \<le> vy (bmin A) \<and> vz (bmin B) \<le> vz (bmin A) \<and>
      vx (bmax A) \<le> vx (bmax B) \<and> vy (bmax A) \<le> vy (bmax B) \<and> vz (bmax A) \<le> vz (bmax B))"

subsection \<open>Messages\<close>

text \<open>\<^verbatim>\<open>IECore::msg( level, context, text )\<close> appends to the log of messages emitted.\<close>

datatype Level = Error | Warning | Info | Debug

type_synonym Msg = "Level \<times> string \<times> string"

subsection \<open>Serialising into memory\<close>

text \<open>
  \<^verbatim>\<open>memoryBuffer()\<close>. The loop inside \<^verbatim>\<open>try\<close> adds up the \<^verbatim>\<open>file_mem_bytes\<close> of the grids
  in a 64-bit signed integer (wrapping here) and leaves at the first grid whose value
  cannot be read; \<^verbatim>\<open>totalSizeBytes\<close> keeps what was added before. The second component
  tells whether the handler ran.
\<close>

fun estimate_loop :: "('t, 'x) heap \<Rightarrow> addr list \<Rightarrow> int64 \<Rightarrow> int64 \<times> vdb_exception option" where
  "estimate_loop h [] totalSizeBytes = (totalSizeBytes, None)"
| "estimate_loop h (grid # rest) totalSizeBytes =
     (case metaValue_int64 (h ! grid) ''file_mem_bytes'' of
        Inl e \<Rightarrow> (totalSizeBytes, Some e)
      | Inr v \<Rightarrow> estimate_loop h rest (totalSizeBytes + v))"

text \<open>
  \<^verbatim>\<open>std::vector::reserve(n)\<close> on the new, empty vector. It throws \<^verbatim>\<open>std::length_error\<close> when
  \<open>n\<close> exceeds the vector's \<^verbatim>\<open>max_size()\<close>; for \<open>n = 0\<close> there is nothing to do; otherwise
  it allocates storage for \<open>n\<close> bytes and throws \<^verbatim>\<open>std::bad_alloc\<close> when the allocator
  cannot provide it. \<open>allocates n\<close> tells whether the allocator can. The result is the
  capacity reserved.
\<close>

datatype std_exception = length_error | bad_alloc

definition reserve :: "nat \<Rightarrow> (nat \<Rightarrow> bool) \<Rightarrow> nat \<Rightarrow> std_exception + nat" where
  "reserve max_size allocates n =
     (if n > max_size then Inl length_error
      else if n = 0 then Inr 0
      else if allocates n then Inr n
      else Inl bad_alloc)"

text \<open>
  The buffer handed back: its bytes and the capacity reserved for it. The call of
  \<^verbatim>\<open>reserve\<close> is after the \<^verbatim>\<open>try\<close> block, so what it throws leaves \<^verbatim>\<open>memoryBuffer()\<close>;
  its argument is a \<^verbatim>\<open>size_t\<close>, so the signed total is read as unsigned.
  \<^verbatim>\<open>UCharVectorDataSink\<close> holds a reference to the storage, so the copy of the sink that
  the stream keeps writes to the buffer itself. \<open>Stream_write\<close> is what
  \<^verbatim>\<open>openvdb::io::Stream::write\<close> writes for the grids.
\<close>

record UCharVectorData =
  readable :: "byte list"
  reserved :: nat

definition memoryBuffer ::
  "(('t, 'x) GridBase list \<Rightarrow> byte list) \<Rightarrow> nat \<Rightarrow> (nat \<Rightarrow> bool) \<Rightarrow> ('t, 'x) heap \<Rightarrow> 'b VDBObject
     \<Rightarrow> Msg list \<times> (std_exception + UCharVectorData)" where
  "memoryBuffer Stream_write max_size allocates h obj =
     (let (totalSizeBytes, caught) = estimate_loop h (m_grids obj) 0;
          msgs = (case caught of
                    None \<Rightarrow> []
                  | Some e \<Rightarrow> [(Warning, ''VDBObject::memoryBuffer'', ''Unable to estimate vdb size.'')])
      in case reserve max_size allocates (unat totalSizeBytes) of
           Inl e \<Rightarrow> (msgs, Inl e)
         | Inr capacity \<Rightarrow>
             (msgs, Inr \<lparr>readable = [] @ Stream_write (map (\<lambda>grid. h ! grid) (m_grids obj)),
                         reserved = capacity\<rparr>))"

subsection \<open>Forcing a read\<close>

text \<open>
  \<^verbatim>\<open>forceRead(name)\<close> calls a member function through the pointer \<^verbatim>\<open>findGrid\<close> returns,
  unchecked: on a null pointer the behaviour is undefined, which is the fault below.
  \<open>readNonresidentBuffers\<close> is the grid's own operation.
\<close>

datatype fault = NullPointerDereference

definition forceRead ::
  "(('t, 'x) GridBase \<Rightarrow> ('t, 'x) GridBase) \<Rightarrow> ('t, 'x) heap \<Rightarrow> 'b VDBObject \<Rightarrow> string
     \<Rightarrow> fault + ('t, 'x) heap" where
  "forceRead readNonresidentBuffers h obj name =
     (case findGrid h obj name of
        None \<Rightarrow> Inl NullPointerDereference
      | Some grid \<Rightarrow> Inr (h[grid := readNonresidentBuffers (h ! grid)]))"

subsection \<open>Metadata\<close>

text \<open>The IECore data objects the members of the result \<^verbatim>\<open>CompoundObject\<close> can be.\<close>

datatype Data =
    StringData string
  | Int64Data int64
  | BoolData bool
  | V3iData "int32 Vec3"

type_synonym CompoundObject = "string \<rightharpoonup> Data"

definition unsupported_text :: "string \<Rightarrow> string \<Rightarrow> string" where
  "unsupported_text tn key =
     [CHR 0x27] @ tn @ [CHR 0x27] @ '' has unsupported metadata type: '' @ [CHR 0x27] @ key @ [CHR 0x27]"

text \<open>
  The loop over the metadata map. Each branch tests the type name and then casts
  (\<^verbatim>\<open>DynamicPtrCast\<close>); an entry whose cast fails is passed over.
\<close>

fun metadata_loop ::
  "(string \<times> Metadata) list \<Rightarrow> CompoundObject \<Rightarrow> Msg list \<Rightarrow> CompoundObject \<times> Msg list" where
  "metadata_loop [] members msgs = (members, msgs)"
| "metadata_loop ((first, second) # rest) members msgs =
     (if typeName second = ''string'' then
        (case second of
           StringMetadata v \<Rightarrow> metadata_loop rest (members(first \<mapsto> StringData v)) msgs
         | _ \<Rightarrow> metadata_loop rest members msgs)
      else if typeName second = ''int64'' then
        (case second of
           Int64Metadata v \<Rightarrow> metadata_loop rest (members(first \<mapsto> Int64Data v)) msgs
         | _ \<Rightarrow> metadata_loop rest members msgs)
      else if typeName second = ''bool'' then
        (case second of
           BoolMetadata v \<Rightarrow> metadata_loop rest (members(first \<mapsto> BoolData v)) msgs
         | _ \<Rightarrow> metadata_loop rest members msgs)
      else if typeName second = ''vec3i'' then
        (case second of
           Vec3IMetadata v \<Rightarrow>
             metadata_loop rest (members(first \<mapsto> V3iData (Vec3 (vx v) (vy v) (vz v)))) msgs
         | _ \<Rightarrow> metadata_loop rest members msgs)
      else
        metadata_loop rest members
          (msgs @ [(Warning, ''VDBObject::metadata'', unsupported_text (typeName second) first)]))"

text \<open>
  \<^verbatim>\<open>metadata(name)\<close>: the heap after the call (the grid has had \<^verbatim>\<open>addStatsMetadata()\<close>
  applied), the result (\<open>None\<close> is the null pointer) and the messages emitted.
\<close>

definition metadata ::
  "(('t, 'x) GridBase \<Rightarrow> ('t, 'x) GridBase) \<Rightarrow> ('t, 'x) heap \<Rightarrow> 'b VDBObject \<Rightarrow> string
     \<Rightarrow> ('t, 'x) heap \<times> CompoundObject option \<times> Msg list" where
  "metadata addStatsMetadata h obj name =
     (case findGrid h obj name of
        None \<Rightarrow> (h, None, [])
      | Some grid \<Rightarrow>
          (let h' = h[grid := addStatsMetadata (h ! grid)];
               (members, msgs) = metadata_loop (metaMap (h' ! grid)) Map.empty []
           in (h', Some members, msgs)))"





subsection \<open>The object protocol\<close>

text \<open>
  \<^verbatim>\<open>isEqualTo(other)\<close>. The first test calls the base class's \<^verbatim>\<open>isNotEqualTo\<close>, taken as a
  parameter, and returns false when that returns false. The last line compares two vectors
  of shared pointers, which compares the pointers element by element.
\<close>

definition isEqualTo :: "('b VDBObject \<Rightarrow> 'b Object \<Rightarrow> bool) \<Rightarrow> 'b VDBObject \<Rightarrow> 'b Object \<Rightarrow> bool" where
  "isEqualTo VisibleRenderable_isNotEqualTo self other =
     (if \<not> VisibleRenderable_isNotEqualTo self other then False
      else (case runTimeCast other of
              None \<Rightarrow> False
            | Some vdbObject \<Rightarrow> m_grids self = m_grids vdbObject))"

text \<open>
  \<^verbatim>\<open>IECore::MurmurHash\<close>: the default-constructed hash, appending bytes and appending
  another hash.
\<close>

record 'h MurmurHash_ops =
  MurmurHash_new :: 'h
  append_bytes :: "'h \<Rightarrow> byte list \<Rightarrow> 'h"
  append_hash :: "'h \<Rightarrow> 'h \<Rightarrow> 'h"

text \<open>What \<^verbatim>\<open>writeTopology\<close>, \<^verbatim>\<open>writeBuffers\<close> and \<^verbatim>\<open>writeTransform\<close> of a grid write.\<close>

record ('t, 'x) GridBase_writers =
  writeTopology :: "('t, 'x) GridBase \<Rightarrow> byte list"
  writeBuffers :: "('t, 'x) GridBase \<Rightarrow> byte list"
  writeTransform :: "('t, 'x) GridBase \<Rightarrow> byte list"

text \<open>\<^verbatim>\<open>struct MurmurHashSink\<close> holds its hash by value; \<^verbatim>\<open>write\<close> appends to it.\<close>

record 'h MurmurHashSink =
  sink_hash :: 'h

definition MurmurHashSink_write :: "'h MurmurHash_ops \<Rightarrow> 'h MurmurHashSink \<Rightarrow> byte list \<Rightarrow> 'h MurmurHashSink" where
  "MurmurHashSink_write M sink s = sink\<lparr>sink_hash := append_bytes M (sink_hash sink) s\<rparr>"

text \<open>
  \<^verbatim>\<open>boost::iostreams::stream<Device>\<close>: the constructor from a device stores a copy of the
  device in the stream (a device is used in place only when wrapped in \<^verbatim>\<open>boost::ref\<close>), and
  what is written to the stream goes to that copy.
\<close>

record 'dev stream =
  device :: 'dev

definition stream_ctor :: "'dev \<Rightarrow> 'dev stream" where
  "stream_ctor dev = \<lparr>device = dev\<rparr>"

definition stream_write :: "('dev \<Rightarrow> byte list \<Rightarrow> 'dev) \<Rightarrow> 'dev stream \<Rightarrow> byte list \<Rightarrow> 'dev stream" where
  "stream_write device_write st s = st\<lparr>device := device_write (device st) s\<rparr>"

text \<open>
  \<^verbatim>\<open>hash(h)\<close>: the base class's hash, then the loop over the grids. Each round makes a
  local \<^verbatim>\<open>sink\<close>, a stream over it, writes the grid to the stream and appends
  \<^verbatim>\<open>sink.hash\<close>, the hash of the local sink, to \<open>h\<close>.
\<close>

fun hash_loop ::
  "'h MurmurHash_ops \<Rightarrow> ('t, 'x) GridBase_writers \<Rightarrow> ('t, 'x) heap \<Rightarrow> addr list \<Rightarrow> 'h \<Rightarrow> 'h" where
  "hash_loop M W hp [] h = h"
| "hash_loop M W hp (grid # rest) h =
     (let sink = \<lparr>sink_hash = MurmurHash_new M\<rparr>;
          hashStream = stream_ctor sink;
          hashStream = stream_write (MurmurHashSink_write M) hashStream (writeTopology W (hp ! grid));
          hashStream = stream_write (MurmurHashSink_write M) hashStream (writeBuffers W (hp ! grid));
          hashStream = stream_write (MurmurHashSink_write M) hashStream (writeTransform W (hp ! grid))
      in hash_loop M W hp rest (append_hash M h (sink_hash sink)))"

definition hash ::
  "('b \<Rightarrow> 'h \<Rightarrow> 'h) \<Rightarrow> 'h MurmurHash_ops \<Rightarrow> ('t, 'x) GridBase_writers \<Rightarrow> ('t, 'x) heap \<Rightarrow> 'b VDBObject
     \<Rightarrow> 'h \<Rightarrow> 'h" where
  "hash VisibleRenderable_hash M W hp self h =
     hash_loop M W hp (m_grids self) (VisibleRenderable_hash (base self) h)"

text \<open>
  \<^verbatim>\<open>copyFrom(other, context)\<close>. \<open>deepCopyGrid\<close> gives the copied grid, which is allocated
  at the end of the heap; \<open>other\<close> is an object other than \<open>self\<close>.
\<close>

fun copyFrom_loop ::
  "(('t, 'x) GridBase \<Rightarrow> ('t, 'x) GridBase) \<Rightarrow> ('t, 'x) heap \<Rightarrow> addr list \<Rightarrow> addr list
     \<Rightarrow> ('t, 'x) heap \<times> addr list" where
  "copyFrom_loop deepCopyGrid h [] grids = (h, grids)"
| "copyFrom_loop deepCopyGrid h (grid # rest) grids =
     copyFrom_loop deepCopyGrid (h @ [deepCopyGrid (h ! grid)]) rest (grids @ [length h])"

definition copyFrom ::
  "('b \<Rightarrow> 'b Object \<Rightarrow> 'c \<Rightarrow> 'b) \<Rightarrow> (('t, 'x) GridBase \<Rightarrow> ('t, 'x) GridBase) \<Rightarrow> ('t, 'x) heap
     \<Rightarrow> 'b VDBObject \<Rightarrow> 'b Object \<Rightarrow> 'c \<Rightarrow> ('t, 'x) heap \<times> 'b VDBObject" where
  "copyFrom VisibleRenderable_copyFrom deepCopyGrid h self other context =
     (let self' = self\<lparr>base := VisibleRenderable_copyFrom (base self) other context\<rparr>
      in case runTimeCast other of
           None \<Rightarrow> (h, self')
         | Some vdbObject \<Rightarrow>
             (let (h', grids) = copyFrom_loop deepCopyGrid h (m_grids vdbObject) (m_grids self')
              in (h', self'\<lparr>m_grids := grids\<rparr>)))"

text \<open>
  \<^verbatim>\<open>save\<close> and \<^verbatim>\<open>load\<close>. The base class's step gets the context and gives it back as it
  left it, with the exception it threw if it threw one. The result is the state the call
  leaves behind and the exception that leaves the call (\<open>None\<close> for a normal return).
\<close>

datatype 'e Exception = NotImplementedException string | BaseException 'e

definition save ::
  "('b \<Rightarrow> 'c \<Rightarrow> 'c \<times> 'e option) \<Rightarrow> 'b VDBObject \<Rightarrow> 'c \<Rightarrow> 'c \<times> 'e Exception option" where
  "save VisibleRenderable_save self context =
     (case VisibleRenderable_save (base self) context of
        (context', Some e) \<Rightarrow> (context', Some (BaseException e))
      | (context', None) \<Rightarrow> (context', Some (NotImplementedException ''VDBObject::save'')))"

definition load ::
  "('b \<Rightarrow> 'c \<Rightarrow> 'b \<times> 'e option) \<Rightarrow> 'b VDBObject \<Rightarrow> 'c \<Rightarrow> 'b VDBObject \<times> 'e Exception option" where
  "load VisibleRenderable_load self context =
     (case VisibleRenderable_load (base self) context of
        (b', Some e) \<Rightarrow> (self\<lparr>base := b'\<rparr>, Some (BaseException e))
      | (b', None) \<Rightarrow> (self\<lparr>base := b'\<rparr>, Some (NotImplementedException ''VDBObject::load'')))"

subsection \<open>Example values\<close>

text \<open>
  Concrete grids, collections and stand-ins for the library operations, at which the
  theorems below are evaluated. Trees are numbers, the base class's state is a number,
  and a deep copy is the same grid value at a new address.
\<close>

definition ex_grid :: "string \<Rightarrow> (string \<times> Metadata) list \<Rightarrow> nat \<Rightarrow> (nat, rat) GridBase" where
  "ex_grid name meta t = \<lparr>getName = name, metaMap = meta, tree = t, transform = 1\<rparr>"

definition ex_deepCopyGrid :: "(nat, rat) GridBase \<Rightarrow> (nat, rat) GridBase" where
  "ex_deepCopyGrid grid = grid"

definition ex_base_copyFrom :: "nat \<Rightarrow> nat Object \<Rightarrow> unit \<Rightarrow> nat" where
  "ex_base_copyFrom b other context = (case other of IsVDBObject v \<Rightarrow> base v | OtherObject b' \<Rightarrow> b')"

definition ex_heap :: "(nat, rat) heap" where
  "ex_heap = [ex_grid ''density'' [] 1, ex_grid ''density'' [] 2, ex_grid ''heat'' [] 3]"

definition ex_target :: "nat VDBObject" where
  "ex_target = insertGrid ex_heap (VDBObject_empty 0) 0"

definition ex_source :: "nat VDBObject" where
  "ex_source = insertGrid ex_heap (VDBObject_empty 0) 1"

definition ex_other :: "nat Object" where
  "ex_other = OtherObject 7"

definition ex_readNonresidentBuffers :: "(nat, rat) GridBase \<Rightarrow> (nat, rat) GridBase" where
  "ex_readNonresidentBuffers grid = grid\<lparr>tree := tree grid + 100\<rparr>"

definition ex_base_save :: "nat \<Rightarrow> nat list \<Rightarrow> nat list \<times> string option" where
  "ex_base_save b context = (context @ [b], None)"

definition ex_base_load :: "nat \<Rightarrow> nat list \<Rightarrow> nat \<times> string option" where
  "ex_base_load b context = (case context of [] \<Rightarrow> (b, Some ''empty'') | v # _ \<Rightarrow> (v, None))"

definition ex_base_isEqualTo :: "nat VDBObject \<Rightarrow> nat Object \<Rightarrow> bool" where
  "ex_base_isEqualTo self other =
     (case other of IsVDBObject v \<Rightarrow> base self = base v | OtherObject b \<Rightarrow> base self = b)"

definition ex_base_isNotEqualTo :: "nat VDBObject \<Rightarrow> nat Object \<Rightarrow> bool" where
  "ex_base_isNotEqualTo self other = (\<not> ex_base_isEqualTo self other)"

definition ex_both :: "nat VDBObject" where
  "ex_both = insertGrid ex_heap (insertGrid ex_heap (VDBObject_empty 0) 0) 2"

definition ex_both_swapped :: "nat VDBObject" where
  "ex_both_swapped = insertGrid ex_heap (insertGrid ex_heap (VDBObject_empty 0) 2) 0"

definition ex_dup_heap :: "(nat, rat) heap" where
  "ex_dup_heap = fst (copyFrom ex_base_copyFrom ex_deepCopyGrid ex_heap ex_target (IsVDBObject ex_source) ())
                 @ [ex_grid ''density'' [] 4]"

definition ex_dup :: "nat VDBObject" where
  "ex_dup = snd (copyFrom ex_base_copyFrom ex_deepCopyGrid ex_heap ex_target (IsVDBObject ex_source) ())"

definition ex_indexToWorld :: "rat \<Rightarrow> rat Box \<Rightarrow> rat Box" where
  "ex_indexToWorld voxelSize box =
     Box (map_Vec3 (\<lambda>c. voxelSize * c) (bmin box)) (map_Vec3 (\<lambda>c. voxelSize * c) (bmax box))"

definition ex_toT :: "rat \<Rightarrow> rat" where
  "ex_toT c = c"

definition ex_limits_max :: rat where
  "ex_limits_max = 340282346638528859811704183484516925440"

definition ex_limits_min :: rat where
  "ex_limits_min = - 340282346638528859811704183484516925440"

definition ex_bbox :: "int32 \<Rightarrow> int32 \<Rightarrow> (string \<times> Metadata) list" where
  "ex_bbox lo hi = [(''file_bbox_max'', Vec3IMetadata (Vec3 hi hi hi)),
                    (''file_bbox_min'', Vec3IMetadata (Vec3 lo lo lo))]"

definition ex_bound_heap :: "(nat, rat) heap" where
  "ex_bound_heap = [ex_grid ''density'' (ex_bbox 0 9) 1, ex_grid ''heat'' (ex_bbox 2 5) 2,
                    ex_grid ''smoke'' [] 3]"

definition ex_density :: "nat VDBObject" where
  "ex_density = insertGrid ex_bound_heap (VDBObject_empty 0) 0"

definition ex_density_smoke :: "nat VDBObject" where
  "ex_density_smoke = insertGrid ex_bound_heap ex_density 2"




definition ex_Stream_write :: "(nat, rat) GridBase list \<Rightarrow> byte list" where
  "ex_Stream_write grids = map (\<lambda>grid. of_nat (tree grid)) grids"

definition ex_max_size :: nat where
  "ex_max_size = 9223372036854775807"

definition ex_mem_heap :: "(nat, rat) heap" where
  "ex_mem_heap = [ex_grid ''density'' [(''file_mem_bytes'', Int64Metadata 4096)] 1,
                  ex_grid ''heat'' [] 2]"

definition ex_mem :: "nat VDBObject" where
  "ex_mem = insertGrid ex_mem_heap (insertGrid ex_mem_heap (VDBObject_empty 0) 0) 1"

definition ex_allocates :: "nat \<Rightarrow> bool" where
  "ex_allocates n = (n \<le> 1099511627776)"

definition ex_negative_heap :: "(nat, rat) heap" where
  "ex_negative_heap = [ex_grid ''density'' [(''file_mem_bytes'', Int64Metadata (- 1))] 1,
                       ex_grid ''heat'' [] 2]"

definition ex_negative :: "nat VDBObject" where
  "ex_negative = insertGrid ex_negative_heap (insertGrid ex_negative_heap (VDBObject_empty 0) 0) 1"

definition ex_huge_heap :: "(nat, rat) heap" where
  "ex_huge_heap = [ex_grid ''density'' [(''file_mem_bytes'', Int64Metadata 4611686018427387904)] 1,
                   ex_grid ''heat'' [] 2]"

definition ex_huge :: "nat VDBObject" where
  "ex_huge = insertGrid ex_huge_heap (insertGrid ex_huge_heap (VDBObject_empty 0) 0) 1"

definition ex_replace_heap :: "(nat, rat) heap" where
  "ex_replace_heap = [ex_grid ''density'' (ex_bbox 0 9) 1, ex_grid ''density'' (ex_bbox 2 5) 2]"

definition ex_replace :: "nat VDBObject" where
  "ex_replace = insertGrid ex_replace_heap (VDBObject_empty 0) 0"

section \<open>Lemmas on the loops\<close>

lemma gridNames_removeGrid_loop:
  "map (\<lambda>a. getName (h ! a)) (removeGrid_loop h as n) = remove1 n (map (\<lambda>a. getName (h ! a)) as)"
  by (induction as) auto

lemma removeGrid_loop_absent:
  "n \<notin> set (map (\<lambda>a. getName (h ! a)) as) \<Longrightarrow> removeGrid_loop h as n = as"
  by (induction as) auto

lemma length_removeGrid_loop:
  "n \<in> set (map (\<lambda>a. getName (h ! a)) as) \<Longrightarrow> Suc (length (removeGrid_loop h as n)) = length as"
  by (induction as) auto

lemma findGrid_loop_None:
  "findGrid_loop h as n = None \<longleftrightarrow> n \<notin> set (map (\<lambda>a. getName (h ! a)) as)"
  by (induction as) auto

lemma findGrid_loop_Some:
  "findGrid_loop h as n = Some a \<Longrightarrow> a \<in> set as \<and> getName (h ! a) = n"
  by (induction as) (auto split: if_splits)

lemma findGrid_loop_append_new:
  "n \<notin> set (map (\<lambda>a. getName (h ! a)) as) \<Longrightarrow> getName (h ! g) = n \<Longrightarrow> findGrid_loop h (as @ [g]) n = Some g"
  by (induction as) auto

lemma gridNames_insertGrid:
  "gridNames h (insertGrid h obj g) = remove1 (getName (h ! g)) (gridNames h obj) @ [getName (h ! g)]"
  by (simp add: gridNames_def insertGrid_def removeGrid_def Let_def gridNames_removeGrid_loop)

lemma upt_step: "[n ..< n + Suc k] = n # [Suc n ..< Suc n + k]"
  by (subst upt_rec) simp

text \<open>
  The loop of \<^verbatim>\<open>copyFrom\<close>, for source pointers that point into the heap: the copies are
  allocated one after the other past the end of the heap.
\<close>

lemma copyFrom_loop_eq:
  "\<forall>a \<in> set src. a < length h \<Longrightarrow>
   copyFrom_loop dc h src dst =
     (h @ map (\<lambda>a. dc (h ! a)) src, dst @ [length h ..< length h + length src])"
proof (induction src arbitrary: h dst)
  case Nil
  then show ?case by simp
next
  case (Cons a src)
  let ?h' = "h @ [dc (h ! a)]"
  have lt: "\<forall>b \<in> set src. b < length ?h'" using Cons.prems by auto
  have same: "map (\<lambda>b. dc (?h' ! b)) src = map (\<lambda>b. dc (h ! b)) src"
    using Cons.prems by (auto simp: nth_append)
  have "copyFrom_loop dc h (a # src) dst = copyFrom_loop dc ?h' src (dst @ [length h])"
    by simp
  also have "\<dots> = (?h' @ map (\<lambda>b. dc (?h' ! b)) src,
                    (dst @ [length h]) @ [length ?h' ..< length ?h' + length src])"
    using Cons.IH [OF lt] by simp
  also have "\<dots> = (h @ map (\<lambda>b. dc (h ! b)) (a # src),
                    dst @ [length h ..< length h + length (a # src)])"
    using upt_step [of "length h" "length src"] by (simp add: same)
  finally show ?case .
qed

lemma map_nth_append_upt:
  "map (\<lambda>a. (h @ xs) ! a) [length h ..< length h + length xs] = xs"
  by (rule nth_equalityI) (auto simp: nth_append)

lemma removeGrid_loop_split:
  "\<forall>a \<in> set pre. getName (h ! a) \<noteq> n \<Longrightarrow> getName (h ! old) = n \<Longrightarrow>
   removeGrid_loop h (pre @ old # post) n = pre @ post"
  by (induction pre) auto

text \<open>
  \<^verbatim>\<open>isEqualTo\<close> holds only where the base class's \<^verbatim>\<open>isNotEqualTo\<close> holds, and then it is
  the equality of the two pointer vectors.
\<close>

lemma isEqualTo_iff:
  "isEqualTo ne self other \<longleftrightarrow>
     ne self other \<and> (\<exists>v. other = IsVDBObject v \<and> m_grids self = m_grids v)"
  by (cases other) (simp_all add: isEqualTo_def)

text \<open>
  The loop of \<^verbatim>\<open>hash\<close> appends the hash of an untouched sink once for each grid: its
  result depends on the number of grids alone.
\<close>

lemma hash_loop_count:
  "hash_loop M W hp grids h = ((\<lambda>x. append_hash M x (MurmurHash_new M)) ^^ length grids) h"
  by (induction grids arbitrary: h) (simp_all add: Let_def funpow_Suc_right del: funpow.simps)

lemma ex_both_grids: "m_grids ex_both = [0, 2]" "m_grids ex_both_swapped = [2, 0]"
  "base ex_both = 0" "base ex_both_swapped = 0"
  by (simp_all add: ex_both_def ex_both_swapped_def ex_heap_def ex_grid_def insertGrid_def
      removeGrid_def VDBObject_empty_def Let_def)

lemma ex_dup_simps:
  "m_grids ex_dup = [0, 3]"
  "ex_dup_heap = [ex_grid ''density'' [] 1, ex_grid ''density'' [] 2, ex_grid ''heat'' [] 3,
                  ex_grid ''density'' [] 2, ex_grid ''density'' [] 4]"
  by (simp_all add: ex_dup_def ex_dup_heap_def ex_heap_def ex_target_def ex_source_def ex_grid_def
      ex_deepCopyGrid_def copyFrom_def insertGrid_def removeGrid_def VDBObject_empty_def Let_def)

lemma inside_refl: "inside A A"
  by (simp add: inside_def)

lemma inside_trans: "inside A B \<Longrightarrow> inside B C \<Longrightarrow> inside A C"
  by (auto simp add: inside_def)

lemma inside_extendBy: "inside A (extendBy A B)" "inside B (extendBy A B)"
  by (auto simp add: inside_def extendBy_def)

lemma extendBy_least: "inside A C \<Longrightarrow> inside B C \<Longrightarrow> inside (extendBy A B) C"
  by (auto simp add: inside_def extendBy_def)

lemma extendBy_inside: "inside B A \<Longrightarrow> extendBy A B = A"
proof -
  assume i: "inside B A"
  have "bmin (extendBy A B) = bmin A"
    using i by (cases "bmin A") (auto simp add: inside_def extendBy_def)
  moreover have "bmax (extendBy A B) = bmax A"
    using i by (cases "bmax A") (auto simp add: inside_def extendBy_def)
  ultimately show ?thesis by (simp add: Box.expand)
qed

text \<open>
  The loop of \<^verbatim>\<open>bound\<close>, when it returns a box: the least box that encloses the box it
  started from and the world bounds of the grids.
\<close>

lemma bound_loop_enclosing:
  "bound_loop i2w toT h gs acc = Inr B \<Longrightarrow>
   inside acc B \<and>
   (\<forall>a \<in> set gs. \<exists>gb. worldBound i2w toT (h ! a) (1 / 2) = Inr gb \<and> inside gb B) \<and>
   (\<forall>C. inside acc C \<and> (\<forall>a \<in> set gs. \<forall>gb. worldBound i2w toT (h ! a) (1 / 2) = Inr gb \<longrightarrow> inside gb C)
        \<longrightarrow> inside B C)"
proof (induction gs arbitrary: acc)
  case Nil
  then show ?case by (simp add: inside_refl)
next
  case (Cons g gs)
  from Cons.prems obtain gb where
    w: "worldBound i2w toT (h ! g) (1 / 2) = Inr gb" and
    r: "bound_loop i2w toT h gs (extendBy acc gb) = Inr B"
    by (auto split: sum.splits)
  note ih = Cons.IH [OF r]
  have 1: "inside acc B"
    using ih inside_extendBy(1) inside_trans by blast
  have 2: "inside gb B"
    using ih inside_extendBy(2) inside_trans by blast
  have 3: "inside B C"
    if "inside acc C" and "\<forall>a \<in> set (g # gs). \<forall>gb. worldBound i2w toT (h ! a) (1 / 2) = Inr gb \<longrightarrow> inside gb C"
    for C
  proof -
    have "inside (extendBy acc gb) C"
      using that w by (simp add: extendBy_least)
    then show ?thesis using ih that by simp
  qed
  show ?case using 1 2 3 w ih by auto
qed

lemma bound_loop_defined:
  "\<forall>a \<in> set gs. \<exists>gb. worldBound i2w toT (h ! a) (1 / 2) = Inr gb \<Longrightarrow>
   \<exists>B. bound_loop i2w toT h gs acc = Inr B"
  by (induction gs arbitrary: acc) auto

lemma bound_loop_fails:
  "a \<in> set gs \<Longrightarrow> worldBound i2w toT (h ! a) (1 / 2) = Inl e \<Longrightarrow>
   \<exists>e'. bound_loop i2w toT h gs acc = Inl e'"
  by (induction gs arbitrary: acc) (auto split: sum.splits)

lemma bound_loop_append:
  "bound_loop i2w toT h gs acc = Inr B \<Longrightarrow> worldBound i2w toT (h ! g) (1 / 2) = Inr gb \<Longrightarrow>
   bound_loop i2w toT h (gs @ [g]) acc = Inr (extendBy B gb)"
  by (induction gs arbitrary: acc) (auto split: sum.splits)

lemma worldBound_missing:
  "map_of (metaMap grid) META_FILE_BBOX_MIN = None \<or> map_of (metaMap grid) META_FILE_BBOX_MAX = None \<Longrightarrow>
   \<exists>e. worldBound i2w toT grid p = Inl e"
  by (auto simp add: worldBound_def metaValue_Vec3i_def split: sum.splits option.splits)

lemma ex_bound_simps:
  "m_grids ex_density = [0]" "m_grids ex_density_smoke = [0, 2]"
  "ex_bound_heap ! 0 = ex_grid ''density'' (ex_bbox 0 9) 1"
  "ex_bound_heap ! Suc 0 = ex_grid ''heat'' (ex_bbox 2 5) 2"
  "ex_bound_heap ! 2 = ex_grid ''smoke'' [] 3"
  by (simp_all add: ex_density_def ex_density_smoke_def ex_bound_heap_def ex_grid_def insertGrid_def
      removeGrid_def VDBObject_empty_def Let_def)

lemma ex_worldBound:
  "worldBound ex_indexToWorld ex_toT (ex_bound_heap ! 0) (1 / 2)
     = Inr (Box (Vec3 (- 1 / 2) (- 1 / 2) (- 1 / 2)) (Vec3 (19 / 2) (19 / 2) (19 / 2)))"
  "worldBound ex_indexToWorld ex_toT (ex_bound_heap ! Suc 0) (1 / 2)
     = Inr (Box (Vec3 (3 / 2) (3 / 2) (3 / 2)) (Vec3 (11 / 2) (11 / 2) (11 / 2)))"
  by (simp_all add: ex_bound_simps worldBound_def metaValue_Vec3i_def META_FILE_BBOX_MIN_def META_FILE_BBOX_MAX_def
      ex_grid_def ex_bbox_def ex_indexToWorld_def ex_toT_def map_Vec3_def Let_def)




lemma estimate_loop_caught:
  "map (\<lambda>a. metaValue_int64 (h ! a) ''file_mem_bytes'') pre = map Inr vs \<Longrightarrow>
   metaValue_int64 (h ! bad) ''file_mem_bytes'' = Inl e \<Longrightarrow>
   estimate_loop h (pre @ bad # post) t = (t + sum_list vs, Some e)"
proof (induction pre arbitrary: vs t)
  case Nil
  then show ?case by simp
next
  case (Cons a pre)
  then obtain v vs' where vs: "vs = v # vs'" by (cases vs) auto
  then show ?case using Cons by (simp add: add.assoc)
qed

lemma estimate_loop_read:
  "map (\<lambda>a. metaValue_int64 (h ! a) ''file_mem_bytes'') grids = map Inr vs \<Longrightarrow>
   estimate_loop h grids t = (t + sum_list vs, None)"
proof (induction grids arbitrary: vs t)
  case Nil
  then show ?case by simp
next
  case (Cons a grids)
  then obtain v vs' where vs: "vs = v # vs'" by (cases vs) auto
  then show ?case using Cons by (simp add: add.assoc)
qed

lemma ex_mem_simps:
  "m_grids ex_mem = [0, 1]"
  "ex_mem_heap ! 0 = ex_grid ''density'' [(''file_mem_bytes'', Int64Metadata 4096)] 1"
  "ex_mem_heap ! Suc 0 = ex_grid ''heat'' [] 2"
  by (simp_all add: ex_mem_def ex_mem_heap_def ex_grid_def insertGrid_def removeGrid_def
      VDBObject_empty_def Let_def)

lemma ex_mem_values:
  "metaValue_int64 (ex_mem_heap ! 0) ''file_mem_bytes'' = Inr 4096"
  "metaValue_int64 (ex_mem_heap ! Suc 0) ''file_mem_bytes'' = Inl (LookupError ''file_mem_bytes'')"
  by (simp_all add: ex_mem_simps metaValue_int64_def ex_grid_def)

lemma ex_bound_density:
  "bound ex_indexToWorld ex_toT ex_limits_max ex_limits_min ex_bound_heap ex_density
     = Inr (Box (Vec3 (- 1 / 2) (- 1 / 2) (- 1 / 2)) (Vec3 (19 / 2) (19 / 2) (19 / 2)))"
  by (simp add: bound_def ex_bound_simps(1) ex_worldBound)
     (simp add: extendBy_def Box_empty_def ex_limits_max_def ex_limits_min_def)



lemma ex_estimates:
  "estimate_loop ex_mem_heap (m_grids ex_mem) 0 = (4096, Some (LookupError ''file_mem_bytes''))"
  "estimate_loop ex_negative_heap (m_grids ex_negative) 0 = (- 1, Some (LookupError ''file_mem_bytes''))"
  "estimate_loop ex_huge_heap (m_grids ex_huge) 0
     = (4611686018427387904, Some (LookupError ''file_mem_bytes''))"
  by (simp_all add: ex_mem_def ex_mem_heap_def ex_negative_def ex_negative_heap_def ex_huge_def
      ex_huge_heap_def ex_grid_def insertGrid_def removeGrid_def VDBObject_empty_def Let_def
      metaValue_int64_def)

lemma ex_reserves:
  "reserve ex_max_size ex_allocates 4096 = Inr 4096"
  "reserve ex_max_size ex_allocates (unat (- 1 :: int64)) = Inl length_error"
  "reserve ex_max_size ex_allocates 4611686018427387904 = Inl bad_alloc"
  by (simp_all add: reserve_def ex_max_size_def ex_allocates_def unsigned_minus_1_eq_mask
      mask_eq_exp_minus_1)

lemma ex_replace_simps:
  "m_grids ex_replace = [0]"
  "m_grids (insertGrid ex_replace_heap ex_replace (Suc 0)) = [Suc 0]"
  by (simp_all add: ex_replace_def ex_replace_heap_def ex_grid_def insertGrid_def removeGrid_def
      VDBObject_empty_def Let_def)

lemma ex_replace_worldBound:
  "worldBound ex_indexToWorld ex_toT (ex_replace_heap ! 0) (1 / 2)
     = Inr (Box (Vec3 (- 1 / 2) (- 1 / 2) (- 1 / 2)) (Vec3 (19 / 2) (19 / 2) (19 / 2)))"
  "worldBound ex_indexToWorld ex_toT (ex_replace_heap ! Suc 0) (1 / 2)
     = Inr (Box (Vec3 (3 / 2) (3 / 2) (3 / 2)) (Vec3 (11 / 2) (11 / 2) (11 / 2)))"
  by (simp_all add: ex_replace_heap_def worldBound_def metaValue_Vec3i_def META_FILE_BBOX_MIN_def
      META_FILE_BBOX_MAX_def ex_grid_def ex_bbox_def ex_indexToWorld_def ex_toT_def map_Vec3_def Let_def)

section \<open>Equality\<close>

text \<open>
  C1. \<^verbatim>\<open>isEqualTo\<close> is meant to be reflexive and to hold for collections with equal base
  class state and equal grid sequences. The source's first test is on the base class's
  \<^verbatim>\<open>isNotEqualTo\<close> and returns false when that is false, that is, when the base class finds
  the objects equal: with a base class whose \<^verbatim>\<open>isNotEqualTo\<close> is the negation of its
  equality, an object whose base class state equals its own is not equal to itself.
\<close>

theorem isEqualTo_not_reflexive:
  "ex_base_isEqualTo ex_both (IsVDBObject ex_both) \<and>
   \<not> isEqualTo ex_base_isNotEqualTo ex_both (IsVDBObject ex_both)"
  by (simp add: isEqualTo_def ex_base_isNotEqualTo_def ex_base_isEqualTo_def)

section \<open>Hashing\<close>

text \<open>
  C2. \<^verbatim>\<open>hash\<close> is meant to depend on the grids and their order. The stream is built over a
  copy of the local sink, so the hash appended for each grid is the hash of a sink nothing
  was written to: whatever the hash operations and the grid writers are, the collection
  holding "density" then "heat" (grids with different trees) and the collection holding
  them in the other order get the same hash, namely the base class's hash with the empty
  hash appended twice.
\<close>

theorem hash_ignores_grids:
  "gridNames ex_heap ex_both = [''density'', ''heat''] \<and>
   gridNames ex_heap ex_both_swapped = [''heat'', ''density''] \<and>
   tree (ex_heap ! 0) \<noteq> tree (ex_heap ! 2) \<and>
   hash vh M W ex_heap ex_both h = hash vh M W ex_heap ex_both_swapped h \<and>
   hash vh M W ex_heap ex_both h
     = append_hash M (append_hash M (vh 0 h) (MurmurHash_new M)) (MurmurHash_new M)"
proof -
  have n: "gridNames ex_heap ex_both = [''density'', ''heat'']"
    "gridNames ex_heap ex_both_swapped = [''heat'', ''density'']"
    "tree (ex_heap ! 0) \<noteq> tree (ex_heap ! 2)"
    by (simp_all add: gridNames_def ex_both_grids) (simp_all add: ex_heap_def ex_grid_def)
  have "hash vh M W ex_heap ex_both h
     = append_hash M (append_hash M (vh 0 h) (MurmurHash_new M)) (MurmurHash_new M)"
    by (simp add: hash_def ex_both_grids Let_def)
  moreover have "hash vh M W ex_heap ex_both_swapped h
     = append_hash M (append_hash M (vh 0 h) (MurmurHash_new M)) (MurmurHash_new M)"
    by (simp add: hash_def ex_both_grids Let_def)
  ultimately show ?thesis using n by simp
qed

section \<open>Unique names\<close>

text \<open>
  C3, as amended. The empty collection has pairwise distinct grid names, and
  \<^verbatim>\<open>insertGrid\<close> and \<^verbatim>\<open>removeGrid\<close> keep them pairwise distinct. \<^verbatim>\<open>insertGrid\<close> with the
  name of an existing grid leaves the size unchanged and puts the new grid last, where
  \<^verbatim>\<open>findGrid\<close> then finds it under that name when names were distinct; \<^verbatim>\<open>removeGrid\<close>
  with an unknown name changes nothing. \<^verbatim>\<open>copyFrom\<close> into an empty collection from a
  source with distinct names gives distinct names when the deep copy keeps a grid's name.
\<close>

theorem unique_names_insert_remove:
  "distinct (gridNames h (VDBObject_empty b)) \<and>
   (distinct (gridNames h obj) \<longrightarrow>
      distinct (gridNames h (insertGrid h obj g)) \<and> distinct (gridNames h (removeGrid h obj n))) \<and>
   (getName (h ! g) \<in> set (gridNames h obj) \<longrightarrow>
      length (m_grids (insertGrid h obj g)) = length (m_grids obj) \<and>
      last (m_grids (insertGrid h obj g)) = g \<and>
      (distinct (gridNames h obj) \<longrightarrow> findGrid h (insertGrid h obj g) (getName (h ! g)) = Some g)) \<and>
   (n \<notin> set (gridNames h obj) \<longrightarrow> removeGrid h obj n = obj) \<and>
   (grids_valid h src \<and> distinct (gridNames h src) \<and> (\<forall>grid. getName (dc grid) = getName grid) \<longrightarrow>
      distinct (gridNames (fst (copyFrom cf dc h (VDBObject_empty b) (IsVDBObject src) ctx))
                          (snd (copyFrom cf dc h (VDBObject_empty b) (IsVDBObject src) ctx))))"
proof -
  let ?nm = "\<lambda>a. getName (h ! a)"
  have c1: "distinct (gridNames h (VDBObject_empty b))"
    by (simp add: gridNames_def VDBObject_empty_def)
  have c2: "distinct (gridNames h (insertGrid h obj g))" if "distinct (gridNames h obj)"
    using that by (simp add: gridNames_insertGrid)
  have c3: "distinct (gridNames h (removeGrid h obj n))" if "distinct (gridNames h obj)"
    using that by (simp add: gridNames_def removeGrid_def gridNames_removeGrid_loop)
  have c4: "length (m_grids (insertGrid h obj g)) = length (m_grids obj)"
    if "getName (h ! g) \<in> set (gridNames h obj)"
    using that length_removeGrid_loop [of "getName (h ! g)" h "m_grids obj"]
    by (simp add: gridNames_def insertGrid_def removeGrid_def Let_def)
  have c5: "last (m_grids (insertGrid h obj g)) = g"
    by (simp add: insertGrid_def Let_def)
  have c6: "findGrid h (insertGrid h obj g) (getName (h ! g)) = Some g"
    if "distinct (gridNames h obj)"
  proof -
    have "getName (h ! g) \<notin> set (map ?nm (removeGrid_loop h (m_grids obj) (getName (h ! g))))"
      using that by (simp add: gridNames_def gridNames_removeGrid_loop)
    then show ?thesis
      by (simp add: findGrid_def insertGrid_def removeGrid_def Let_def findGrid_loop_append_new)
  qed
  have c7: "removeGrid h obj n = obj" if "n \<notin> set (gridNames h obj)"
    using that removeGrid_loop_absent [of n h "m_grids obj"]
    by (simp add: gridNames_def removeGrid_def)
  have c8: "distinct (gridNames (fst (copyFrom cf dc h (VDBObject_empty b) (IsVDBObject src) ctx))
                          (snd (copyFrom cf dc h (VDBObject_empty b) (IsVDBObject src) ctx)))"
    if v: "grids_valid h src" and d: "distinct (gridNames h src)"
      and nm: "\<forall>grid. getName (dc grid) = getName grid"
  proof -
    let ?new = "map (\<lambda>a. dc (h ! a)) (m_grids src)"
    have lt: "\<forall>a \<in> set (m_grids src). a < length h"
      using v by (simp add: grids_valid_def)
    have "gridNames (fst (copyFrom cf dc h (VDBObject_empty b) (IsVDBObject src) ctx))
                    (snd (copyFrom cf dc h (VDBObject_empty b) (IsVDBObject src) ctx))
          = map getName (map (\<lambda>a. (h @ ?new) ! a) [length h ..< length h + length ?new])"
      by (simp add: copyFrom_def copyFrom_loop_eq [OF lt] VDBObject_empty_def gridNames_def Let_def)
    also have "\<dots> = map getName ?new"
      by (simp only: map_nth_append_upt)
    also have "\<dots> = gridNames h src"
      using nm by (simp add: gridNames_def)
    finally show ?thesis using d by simp
  qed
  show ?thesis using c1 c2 c3 c4 c5 c6 c7 c8 by blast
qed

theorem unique_names_insert_remove_witness:
  "distinct (gridNames ex_heap ex_both) \<and>
   getName (ex_heap ! 1) \<in> set (gridNames ex_heap ex_both) \<and>
   ''smoke'' \<notin> set (gridNames ex_heap ex_both) \<and>
   grids_valid ex_heap ex_both \<and> (\<forall>grid. getName (ex_deepCopyGrid grid) = getName grid) \<and>
   distinct (gridNames ex_heap (insertGrid ex_heap ex_both 1)) \<and>
   distinct (gridNames ex_heap (removeGrid ex_heap ex_both ''smoke'')) \<and>
   length (m_grids (insertGrid ex_heap ex_both 1)) = 2 \<and>
   findGrid ex_heap (insertGrid ex_heap ex_both 1) ''density'' = Some 1 \<and>
   removeGrid ex_heap ex_both ''smoke'' = ex_both \<and>
   distinct (gridNames (fst (copyFrom ex_base_copyFrom ex_deepCopyGrid ex_heap (VDBObject_empty 0) (IsVDBObject ex_both) ()))
                       (snd (copyFrom ex_base_copyFrom ex_deepCopyGrid ex_heap (VDBObject_empty 0) (IsVDBObject ex_both) ())))"
proof -
  have n: "gridNames ex_heap ex_both = [''density'', ''heat'']" "getName (ex_heap ! Suc 0) = ''density''"
    by (simp_all add: gridNames_def ex_both_grids) (simp_all add: ex_heap_def ex_grid_def)
  have v: "grids_valid ex_heap ex_both"
    by (simp add: grids_valid_def ex_both_grids) (simp add: ex_heap_def)
  have d: "\<forall>grid. getName (ex_deepCopyGrid grid) = getName grid"
    by (simp add: ex_deepCopyGrid_def)
  show ?thesis
    using unique_names_insert_remove
      [of ex_heap 0 ex_both 1 "''smoke''" ex_both ex_deepCopyGrid ex_base_copyFrom "()"] v d
    by (simp add: n ex_both_grids)
qed

text \<open>
  \<^verbatim>\<open>copyFrom\<close> into a collection that is not empty does not keep names distinct: a
  collection holding one grid "density", copied into from another collection holding a
  grid "density", holds two grids of that name.
\<close>

theorem copyFrom_breaks_unique_names:
  "distinct (gridNames ex_heap ex_target) \<and> distinct (gridNames ex_heap ex_source) \<and>
   \<not> distinct (gridNames (fst (copyFrom ex_base_copyFrom ex_deepCopyGrid ex_heap ex_target (IsVDBObject ex_source) ()))
                         (snd (copyFrom ex_base_copyFrom ex_deepCopyGrid ex_heap ex_target (IsVDBObject ex_source) ())))"
  by (simp add: ex_heap_def ex_target_def ex_source_def ex_grid_def ex_deepCopyGrid_def
      copyFrom_def gridNames_def insertGrid_def removeGrid_def VDBObject_empty_def Let_def)

section \<open>Copying\<close>

text \<open>
  C4. \<^verbatim>\<open>copyFrom(other, context)\<close> always leaves the base class state the base class's
  copy gave. When \<open>other\<close> is a VDBObject, the heap grows by a deep copy of each of its
  grids, in order, and the pointers to these copies are appended to the grid pointers this
  collection already had, none of which is dropped. When \<open>other\<close> is of another kind the
  call returns with the heap and the grid pointers unchanged, the base class's copy applied.
\<close>

theorem copyFrom_appends_deep_copies:
  "base (snd (copyFrom cf dc h self other ctx)) = cf (base self) other ctx \<and>
   (\<forall>src. other = IsVDBObject src \<and> grids_valid h src \<longrightarrow>
      fst (copyFrom cf dc h self other ctx) = h @ map (\<lambda>a. dc (h ! a)) (m_grids src) \<and>
      m_grids (snd (copyFrom cf dc h self other ctx))
        = m_grids self @ [length h ..< length h + length (m_grids src)]) \<and>
   (\<forall>b. other = OtherObject b \<longrightarrow>
      copyFrom cf dc h self other ctx = (h, self\<lparr>base := cf (base self) other ctx\<rparr>))"
proof -
  have a: "base (snd (copyFrom cf dc h self other ctx)) = cf (base self) other ctx"
    by (cases other) (simp_all add: copyFrom_def Let_def split: prod.splits)
  have b: "fst (copyFrom cf dc h self (IsVDBObject src) ctx) = h @ map (\<lambda>a. dc (h ! a)) (m_grids src) \<and>
      m_grids (snd (copyFrom cf dc h self (IsVDBObject src) ctx))
        = m_grids self @ [length h ..< length h + length (m_grids src)]"
    if "grids_valid h src" for src
  proof -
    have lt: "\<forall>a \<in> set (m_grids src). a < length h"
      using that by (simp add: grids_valid_def)
    show ?thesis
      by (simp add: copyFrom_def Let_def copyFrom_loop_eq [OF lt])
  qed
  have c: "copyFrom cf dc h self (OtherObject b) ctx = (h, self\<lparr>base := cf (base self) (OtherObject b) ctx\<rparr>)" for b
    by (simp add: copyFrom_def Let_def)
  show ?thesis using a b c by blast
qed

theorem copyFrom_appends_deep_copies_witness:
  "grids_valid ex_heap ex_source \<and>
   fst (copyFrom ex_base_copyFrom ex_deepCopyGrid ex_heap ex_target (IsVDBObject ex_source) ())
     = ex_heap @ [ex_grid ''density'' [] 2] \<and>
   m_grids (snd (copyFrom ex_base_copyFrom ex_deepCopyGrid ex_heap ex_target (IsVDBObject ex_source) ())) = [0, 3] \<and>
   copyFrom ex_base_copyFrom ex_deepCopyGrid ex_heap ex_target ex_other () = (ex_heap, ex_target\<lparr>base := 7\<rparr>)"
proof -
  have v: "grids_valid ex_heap ex_source"
    by (simp add: grids_valid_def ex_source_def ex_heap_def insertGrid_def removeGrid_def
        VDBObject_empty_def Let_def)
  have s: "m_grids ex_source = [1]" "m_grids ex_target = [0]" "length ex_heap = 3"
    by (simp_all add: ex_source_def ex_target_def ex_heap_def insertGrid_def removeGrid_def
        VDBObject_empty_def Let_def)
  have g: "ex_deepCopyGrid (ex_heap ! Suc 0) = ex_grid ''density'' [] 2"
    by (simp add: ex_deepCopyGrid_def ex_heap_def)
  show ?thesis
    using v copyFrom_appends_deep_copies
      [of ex_base_copyFrom ex_deepCopyGrid ex_heap ex_target "IsVDBObject ex_source" "()"]
      copyFrom_appends_deep_copies
      [of ex_base_copyFrom ex_deepCopyGrid ex_heap ex_target ex_other "()"]
    by (simp add: s g ex_other_def ex_base_copyFrom_def)
qed

section \<open>Saving and loading\<close>

text \<open>
  C6. \<^verbatim>\<open>save\<close> and \<^verbatim>\<open>load\<close> leave by an exception in every state. The base class's step
  has run by then (the context, and for \<^verbatim>\<open>load\<close> the base class state, are as it left
  them), and when it returned normally the exception is the not implemented one. The grid
  pointers are not touched.
\<close>

theorem save_load_not_implemented:
  "snd (save vs self sc) \<noteq> None \<and> snd (load vl self lc) \<noteq> None \<and>
   (snd (vs (base self) sc) = None \<longrightarrow>
      snd (save vs self sc) = Some (NotImplementedException ''VDBObject::save'')) \<and>
   (snd (vl (base self) lc) = None \<longrightarrow>
      snd (load vl self lc) = Some (NotImplementedException ''VDBObject::load'')) \<and>
   fst (save vs self sc) = fst (vs (base self) sc) \<and>
   base (fst (load vl self lc)) = fst (vl (base self) lc) \<and>
   m_grids (fst (load vl self lc)) = m_grids self"
  by (auto simp add: save_def load_def split: prod.splits option.splits)

theorem save_load_not_implemented_witness:
  "snd (ex_base_save (base ex_source) []) = None \<and>
   save ex_base_save ex_source [] = ([0], Some (NotImplementedException ''VDBObject::save'')) \<and>
   snd (ex_base_load (base ex_source) [5]) = None \<and>
   snd (load ex_base_load ex_source [5]) = Some (NotImplementedException ''VDBObject::load'') \<and>
   base (fst (load ex_base_load ex_source [5])) = 5 \<and>
   m_grids (fst (load ex_base_load ex_source [5])) = [1]"
proof -
  have s: "m_grids ex_source = [1]" "base ex_source = 0"
    by (simp_all add: ex_source_def ex_heap_def insertGrid_def removeGrid_def VDBObject_empty_def Let_def)
  show ?thesis
    using save_load_not_implemented [of ex_base_save ex_source "[]" ex_base_load "[5]"]
    by (auto simp add: s ex_base_save_def ex_base_load_def prod_eq_iff)
qed

section \<open>Forcing a read\<close>

text \<open>
  C8. For a name some grid of the collection has, \<^verbatim>\<open>findGrid\<close> returns a grid of the
  collection with that name and \<^verbatim>\<open>forceRead\<close> returns the heap with that grid's buffers
  read; for any other name \<^verbatim>\<open>forceRead\<close> dereferences the null pointer.
\<close>

theorem forceRead_unchecked:
  "(name \<in> set (gridNames h obj) \<longrightarrow>
      (\<exists>grid. findGrid h obj name = Some grid \<and> grid \<in> set (m_grids obj) \<and>
         getName (h ! grid) = name \<and>
         forceRead rnb h obj name = Inr (h[grid := rnb (h ! grid)]))) \<and>
   (name \<notin> set (gridNames h obj) \<longrightarrow> forceRead rnb h obj name = Inl NullPointerDereference)"
proof -
  have a: "\<exists>grid. findGrid h obj name = Some grid \<and> grid \<in> set (m_grids obj) \<and>
         getName (h ! grid) = name \<and>
         forceRead rnb h obj name = Inr (h[grid := rnb (h ! grid)])"
    if "name \<in> set (gridNames h obj)"
  proof -
    have "findGrid_loop h (m_grids obj) name \<noteq> None"
      using that by (simp add: findGrid_loop_None gridNames_def)
    then obtain grid where f: "findGrid_loop h (m_grids obj) name = Some grid" by blast
    then show ?thesis
      using findGrid_loop_Some [OF f] by (simp add: findGrid_def forceRead_def)
  qed
  have b: "forceRead rnb h obj name = Inl NullPointerDereference"
    if "name \<notin> set (gridNames h obj)"
  proof -
    have "findGrid_loop h (m_grids obj) name = None"
      using that by (simp add: findGrid_loop_None gridNames_def)
    then show ?thesis by (simp add: findGrid_def forceRead_def)
  qed
  show ?thesis using a b by blast
qed

theorem forceRead_unchecked_witness:
  "''density'' \<in> set (gridNames ex_heap ex_source) \<and>
   forceRead ex_readNonresidentBuffers ex_heap ex_source ''density''
     = Inr [ex_grid ''density'' [] 1, ex_grid ''density'' [] 102, ex_grid ''heat'' [] 3] \<and>
   ''heat'' \<notin> set (gridNames ex_heap ex_source) \<and>
   forceRead ex_readNonresidentBuffers ex_heap ex_source ''heat'' = Inl NullPointerDereference"
proof -
  have s: "m_grids ex_source = [1]"
    by (simp add: ex_source_def ex_heap_def insertGrid_def removeGrid_def VDBObject_empty_def Let_def)
  have n: "gridNames ex_heap ex_source = [''density'']"
    by (simp add: gridNames_def s) (simp add: ex_heap_def ex_grid_def)
  have u: "ex_heap[Suc 0 := ex_readNonresidentBuffers (ex_heap ! Suc 0)]
           = [ex_grid ''density'' [] 1, ex_grid ''density'' [] 102, ex_grid ''heat'' [] 3]"
    by (simp add: ex_heap_def ex_grid_def ex_readNonresidentBuffers_def)
  show ?thesis
    using forceRead_unchecked [of "''density''" ex_heap ex_source ex_readNonresidentBuffers]
      forceRead_unchecked [of "''heat''" ex_heap ex_source ex_readNonresidentBuffers]
    by (auto simp add: n s u)
qed

section \<open>Replacing a grid\<close>

text \<open>
  C10, as amended. \<^verbatim>\<open>insertGrid\<close> with the name of an existing grid erases the first grid
  of that name from its place and appends the new grid at the end; when the names of the
  collection are pairwise distinct and the erased grid was not the last one, the list
  \<^verbatim>\<open>gridNames()\<close> returns changes.
\<close>

theorem insertGrid_erases_and_appends:
  "m_grids obj = pre @ old # post \<and> getName (h ! old) = getName (h ! g) \<and>
   (\<forall>a \<in> set pre. getName (h ! a) \<noteq> getName (h ! g)) \<longrightarrow>
     findGrid h obj (getName (h ! g)) = Some old \<and>
     m_grids (insertGrid h obj g) = pre @ post @ [g] \<and>
     (post \<noteq> [] \<and> distinct (gridNames h obj) \<longrightarrow>
        gridNames h (insertGrid h obj g) \<noteq> gridNames h obj)"
proof (intro impI, elim conjE)
  let ?nm = "\<lambda>a. getName (h ! a)"
  assume m: "m_grids obj = pre @ old # post"
    and o: "getName (h ! old) = getName (h ! g)"
    and p: "\<forall>a \<in> set pre. getName (h ! a) \<noteq> getName (h ! g)"
  have f: "findGrid h obj (getName (h ! g)) = Some old"
    unfolding findGrid_def m using o p by (induction pre) auto
  have r: "m_grids (insertGrid h obj g) = pre @ post @ [g]"
    using removeGrid_loop_split [OF p o, of post]
    by (simp add: insertGrid_def removeGrid_def Let_def m)
  have n: "gridNames h (insertGrid h obj g) \<noteq> gridNames h obj"
    if ne: "post \<noteq> []" and d: "distinct (gridNames h obj)"
  proof
    assume eq: "gridNames h (insertGrid h obj g) = gridNames h obj"
    have "map ?nm post @ [?nm g] = ?nm g # map ?nm post"
      using eq by (simp add: gridNames_def r m o)
    moreover obtain q qs where "post = q # qs" using ne by (cases post) auto
    ultimately have "?nm q = ?nm g" by simp
    then have "?nm old \<in> set (map ?nm post)" using \<open>post = q # qs\<close> o by simp
    then show False using d by (simp add: gridNames_def m)
  qed
  show "findGrid h obj (getName (h ! g)) = Some old \<and>
     m_grids (insertGrid h obj g) = pre @ post @ [g] \<and>
     (post \<noteq> [] \<and> distinct (gridNames h obj) \<longrightarrow>
        gridNames h (insertGrid h obj g) \<noteq> gridNames h obj)"
    using f r n by blast
qed

theorem insertGrid_erases_and_appends_witness:
  "m_grids ex_both = [] @ 0 # [2] \<and> getName (ex_heap ! 0) = getName (ex_heap ! 1) \<and>
   [2] \<noteq> ([] :: nat list) \<and> distinct (gridNames ex_heap ex_both) \<and>
   findGrid ex_heap ex_both (getName (ex_heap ! 1)) = Some 0 \<and>
   m_grids (insertGrid ex_heap ex_both 1) = [2, 1] \<and>
   gridNames ex_heap (insertGrid ex_heap ex_both 1) \<noteq> gridNames ex_heap ex_both"
proof -
  have n: "getName (ex_heap ! 0) = getName (ex_heap ! 1)" "distinct (gridNames ex_heap ex_both)"
    by (simp_all add: gridNames_def ex_both_grids) (simp_all add: ex_heap_def ex_grid_def)
  show ?thesis
    using insertGrid_erases_and_appends [of ex_both "[]" 0 "[2]" ex_heap 1] n
    by (simp add: ex_both_grids)
qed

text \<open>
  Without distinct names the list of names can stay as it was: in the collection with two
  grids "density" that \<^verbatim>\<open>copyFrom\<close> produced above, inserting a third grid "density"
  erases the first, which was not the last, and the names are the same list as before.
\<close>

theorem insertGrid_same_names_counterexample:
  "findGrid ex_dup_heap ex_dup (getName (ex_dup_heap ! 4)) = Some 0 \<and>
   last (m_grids ex_dup) \<noteq> 0 \<and>
   m_grids (insertGrid ex_dup_heap ex_dup 4) = [3, 4] \<and>
   gridNames ex_dup_heap (insertGrid ex_dup_heap ex_dup 4) = gridNames ex_dup_heap ex_dup"
  by (simp add: ex_dup_simps findGrid_def gridNames_def insertGrid_def removeGrid_def Let_def ex_grid_def)

section \<open>Bounds of the collection\<close>

text \<open>
  C5, as amended. A grid's world bound is its index box from the \<^verbatim>\<open>file_bbox_min\<close> and
  \<^verbatim>\<open>file_bbox_max\<close> metadata, widened by half a voxel on each side, sent through the grid's
  own transform and converted to the coordinate type. When every grid has a world bound,
  \<^verbatim>\<open>bound()\<close> is the union of these boxes: the least box that encloses the empty box and
  the world bound of every grid. When a grid lacks one of the two metadata entries,
  \<^verbatim>\<open>bound()\<close> ends with the exception. A grid whose world bound lies inside \<^verbatim>\<open>bound()\<close>
  leaves \<^verbatim>\<open>bound()\<close> as it was when it is appended to the sequence of grids, which is
  what \<^verbatim>\<open>insertGrid\<close> does with a grid whose name no grid of the collection has.
  Coordinates are of any linearly ordered type.
\<close>

theorem bound_is_union:
  "(metaValue_Vec3i grid META_FILE_BBOX_MIN = Inr mn \<and>
    metaValue_Vec3i grid META_FILE_BBOX_MAX = Inr mx \<longrightarrow>
      worldBound i2w toT grid (1 / 2)
        = Inr (Box (map_Vec3 toT (bmin (i2w (transform grid)
                      (Box (map_Vec3 (\<lambda>c. of_int (sint c) - 1 / 2) mn)
                           (map_Vec3 (\<lambda>c. of_int (sint c) + 1 / 2) mx)))))
                   (map_Vec3 toT (bmax (i2w (transform grid)
                      (Box (map_Vec3 (\<lambda>c. of_int (sint c) - 1 / 2) mn)
                           (map_Vec3 (\<lambda>c. of_int (sint c) + 1 / 2) mx))))))) \<and>
   ((\<forall>a \<in> set (m_grids obj). \<exists>gb. worldBound i2w toT (h ! a) (1 / 2) = Inr gb) \<longrightarrow>
      (\<exists>B. bound i2w toT lmax lmin h obj = Inr B \<and>
           inside (Box_empty lmax lmin) B \<and>
           (\<forall>a \<in> set (m_grids obj). \<forall>gb. worldBound i2w toT (h ! a) (1 / 2) = Inr gb \<longrightarrow> inside gb B) \<and>
           (\<forall>C. inside (Box_empty lmax lmin) C \<and>
                (\<forall>a \<in> set (m_grids obj). \<forall>gb. worldBound i2w toT (h ! a) (1 / 2) = Inr gb \<longrightarrow> inside gb C)
                \<longrightarrow> inside B C))) \<and>
   ((\<exists>a \<in> set (m_grids obj). map_of (metaMap (h ! a)) META_FILE_BBOX_MIN = None \<or>
                               map_of (metaMap (h ! a)) META_FILE_BBOX_MAX = None) \<longrightarrow>
      (\<exists>e. bound i2w toT lmax lmin h obj = Inl e)) \<and>
   (bound i2w toT lmax lmin h obj = Inr B \<and> worldBound i2w toT (h ! g) (1 / 2) = Inr gb \<and>
    inside gb B \<and> findGrid h obj (getName (h ! g)) = None \<longrightarrow>
      bound i2w toT lmax lmin h (insertGrid h obj g) = Inr B) \<and>
   (bound i2w toT lmax lmin h obj = Inr B \<and> worldBound i2w toT (h ! g) (1 / 2) = Inr gb \<and>
    inside gb B \<longrightarrow>
      bound i2w toT lmax lmin h (obj\<lparr>m_grids := m_grids obj @ [g]\<rparr>) = Inr B)"
proof -
  have a: "worldBound i2w toT grid (1 / 2)
        = Inr (Box (map_Vec3 toT (bmin (i2w (transform grid)
                      (Box (map_Vec3 (\<lambda>c. of_int (sint c) - 1 / 2) mn)
                           (map_Vec3 (\<lambda>c. of_int (sint c) + 1 / 2) mx)))))
                   (map_Vec3 toT (bmax (i2w (transform grid)
                      (Box (map_Vec3 (\<lambda>c. of_int (sint c) - 1 / 2) mn)
                           (map_Vec3 (\<lambda>c. of_int (sint c) + 1 / 2) mx))))))"
    if "metaValue_Vec3i grid META_FILE_BBOX_MIN = Inr mn"
      and "metaValue_Vec3i grid META_FILE_BBOX_MAX = Inr mx"
    using that by (simp add: worldBound_def Let_def map_Vec3_def)
  have b: "\<exists>B. bound i2w toT lmax lmin h obj = Inr B \<and>
           inside (Box_empty lmax lmin) B \<and>
           (\<forall>a \<in> set (m_grids obj). \<forall>gb. worldBound i2w toT (h ! a) (1 / 2) = Inr gb \<longrightarrow> inside gb B) \<and>
           (\<forall>C. inside (Box_empty lmax lmin) C \<and>
                (\<forall>a \<in> set (m_grids obj). \<forall>gb. worldBound i2w toT (h ! a) (1 / 2) = Inr gb \<longrightarrow> inside gb C)
                \<longrightarrow> inside B C)"
    if d: "\<forall>a \<in> set (m_grids obj). \<exists>gb. worldBound i2w toT (h ! a) (1 / 2) = Inr gb"
  proof -
    obtain B where B: "bound_loop i2w toT h (m_grids obj) (Box_empty lmax lmin) = Inr B"
      using bound_loop_defined [OF d] by blast
    note e = bound_loop_enclosing [OF B]
    have "\<forall>a \<in> set (m_grids obj). \<forall>gb. worldBound i2w toT (h ! a) (1 / 2) = Inr gb \<longrightarrow> inside gb B"
      using e by fastforce
    then show ?thesis using B e by (auto simp add: bound_def)
  qed
  have c: "\<exists>e. bound i2w toT lmax lmin h obj = Inl e"
    if "\<exists>a \<in> set (m_grids obj). map_of (metaMap (h ! a)) META_FILE_BBOX_MIN = None \<or>
                               map_of (metaMap (h ! a)) META_FILE_BBOX_MAX = None"
  proof -
    from that obtain a where a: "a \<in> set (m_grids obj)"
      and m: "map_of (metaMap (h ! a)) META_FILE_BBOX_MIN = None \<or>
              map_of (metaMap (h ! a)) META_FILE_BBOX_MAX = None"
      by blast
    obtain e where "worldBound i2w toT (h ! a) (1 / 2) = Inl e"
      using worldBound_missing [OF m] by blast
    then show ?thesis
      using bound_loop_fails [OF a] by (simp add: bound_def)
  qed
  have d: "bound i2w toT lmax lmin h (insertGrid h obj g) = Inr B"
    if B: "bound i2w toT lmax lmin h obj = Inr B"
      and w: "worldBound i2w toT (h ! g) (1 / 2) = Inr gb"
      and i: "inside gb B" and f: "findGrid h obj (getName (h ! g)) = None"
  proof -
    have "getName (h ! g) \<notin> set (map (\<lambda>a. getName (h ! a)) (m_grids obj))"
      using f by (simp add: findGrid_def findGrid_loop_None)
    then have "m_grids (insertGrid h obj g) = m_grids obj @ [g]"
      by (simp add: insertGrid_def removeGrid_def Let_def removeGrid_loop_absent)
    then have "bound i2w toT lmax lmin h (insertGrid h obj g) = Inr (extendBy B gb)"
      using bound_loop_append [OF _ w] B by (simp add: bound_def)
    then show ?thesis using extendBy_inside [OF i] by simp
  qed
  have e: "bound i2w toT lmax lmin h (obj\<lparr>m_grids := m_grids obj @ [g]\<rparr>) = Inr B"
    if B: "bound i2w toT lmax lmin h obj = Inr B"
      and w: "worldBound i2w toT (h ! g) (1 / 2) = Inr gb"
      and i: "inside gb B"
  proof -
    have "bound i2w toT lmax lmin h (obj\<lparr>m_grids := m_grids obj @ [g]\<rparr>) = Inr (extendBy B gb)"
      using bound_loop_append [OF _ w] B by (simp add: bound_def)
    then show ?thesis using extendBy_inside [OF i] by simp
  qed
  show ?thesis using a b c d e by blast
qed

theorem bound_is_union_witness:
  "metaValue_Vec3i (ex_bound_heap ! 0) META_FILE_BBOX_MIN = Inr (Vec3 0 0 0) \<and>
   metaValue_Vec3i (ex_bound_heap ! 0) META_FILE_BBOX_MAX = Inr (Vec3 9 9 9) \<and>
   worldBound ex_indexToWorld ex_toT (ex_bound_heap ! 0) (1 / 2)
     = Inr (Box (Vec3 (- 1 / 2) (- 1 / 2) (- 1 / 2)) (Vec3 (19 / 2) (19 / 2) (19 / 2))) \<and>
   bound ex_indexToWorld ex_toT ex_limits_max ex_limits_min ex_bound_heap ex_density
     = Inr (Box (Vec3 (- 1 / 2) (- 1 / 2) (- 1 / 2)) (Vec3 (19 / 2) (19 / 2) (19 / 2))) \<and>
   worldBound ex_indexToWorld ex_toT (ex_bound_heap ! 1) (1 / 2)
     = Inr (Box (Vec3 (3 / 2) (3 / 2) (3 / 2)) (Vec3 (11 / 2) (11 / 2) (11 / 2))) \<and>
   inside (Box (Vec3 (3 / 2) (3 / 2) (3 / 2)) (Vec3 (11 / 2) (11 / 2) (11 / 2)))
          (Box (Vec3 (- 1 / 2) (- 1 / 2) (- 1 / 2)) (Vec3 (19 / 2) (19 / 2) (19 / 2 :: rat))) \<and>
   findGrid ex_bound_heap ex_density (getName (ex_bound_heap ! 1)) = None \<and>
   bound ex_indexToWorld ex_toT ex_limits_max ex_limits_min ex_bound_heap
       (insertGrid ex_bound_heap ex_density 1)
     = Inr (Box (Vec3 (- 1 / 2) (- 1 / 2) (- 1 / 2)) (Vec3 (19 / 2) (19 / 2) (19 / 2))) \<and>
   bound ex_indexToWorld ex_toT ex_limits_max ex_limits_min ex_bound_heap
       (ex_density\<lparr>m_grids := m_grids ex_density @ [1]\<rparr>)
     = Inr (Box (Vec3 (- 1 / 2) (- 1 / 2) (- 1 / 2)) (Vec3 (19 / 2) (19 / 2) (19 / 2))) \<and>
   2 \<in> set (m_grids ex_density_smoke) \<and>
   map_of (metaMap (ex_bound_heap ! 2)) META_FILE_BBOX_MIN = None \<and>
   bound ex_indexToWorld ex_toT ex_limits_max ex_limits_min ex_bound_heap ex_density_smoke
     = Inl (LookupError ''file_bbox_min'')"
proof -
  let ?D = "Box (Vec3 (- 1 / 2) (- 1 / 2) (- 1 / 2)) (Vec3 (19 / 2) (19 / 2) (19 / 2 :: rat))"
  let ?H = "Box (Vec3 (3 / 2) (3 / 2) (3 / 2)) (Vec3 (11 / 2) (11 / 2) (11 / 2 :: rat))"
  have m: "metaValue_Vec3i (ex_bound_heap ! 0) META_FILE_BBOX_MIN = Inr (Vec3 0 0 0)"
    "metaValue_Vec3i (ex_bound_heap ! 0) META_FILE_BBOX_MAX = Inr (Vec3 9 9 9)"
    "map_of (metaMap (ex_bound_heap ! 2)) META_FILE_BBOX_MIN = None"
    by (simp_all add: ex_bound_simps metaValue_Vec3i_def META_FILE_BBOX_MIN_def
        META_FILE_BBOX_MAX_def ex_grid_def ex_bbox_def)
  have w: "worldBound ex_indexToWorld ex_toT (ex_bound_heap ! 0) (1 / 2) = Inr ?D"
    "worldBound ex_indexToWorld ex_toT (ex_bound_heap ! Suc 0) (1 / 2) = Inr ?H"
    by (simp_all add: ex_worldBound)
  have i: "inside ?H ?D"
    by (simp add: inside_def)
  have f: "findGrid ex_bound_heap ex_density (getName (ex_bound_heap ! Suc 0)) = None"
    by (simp add: findGrid_def ex_bound_simps ex_grid_def)
  have s: "bound ex_indexToWorld ex_toT ex_limits_max ex_limits_min ex_bound_heap ex_density_smoke
     = Inl (LookupError ''file_bbox_min'')"
    by (simp add: bound_def ex_bound_simps(2) ex_worldBound)
       (simp add: ex_bound_simps worldBound_def metaValue_Vec3i_def META_FILE_BBOX_MIN_def ex_grid_def)
  have "bound ex_indexToWorld ex_toT ex_limits_max ex_limits_min ex_bound_heap
       (insertGrid ex_bound_heap ex_density (Suc 0)) = Inr ?D \<and>
     bound ex_indexToWorld ex_toT ex_limits_max ex_limits_min ex_bound_heap
       (ex_density\<lparr>m_grids := m_grids ex_density @ [Suc 0]\<rparr>) = Inr ?D"
    using bound_is_union [of _ _ _ ex_indexToWorld ex_toT ex_density ex_bound_heap
        ex_limits_max ex_limits_min ?D "Suc 0" ?H]
      ex_bound_density w i f by blast
  then show ?thesis
    using m w i f s ex_bound_density by (simp add: ex_bound_simps)
qed

text \<open>
  \<^verbatim>\<open>insertGrid\<close> with the name of an existing grid erases that grid first, and then
  \<^verbatim>\<open>bound()\<close> can shrink although the new grid's world bound lies inside it: in the
  collection holding one grid "density" with index box 0 to 9, inserting another grid
  "density" with index box 2 to 5 takes \<^verbatim>\<open>bound()\<close> from the box -1/2 to 19/2 to the box
  3/2 to 11/2.
\<close>

theorem bound_shrinks_on_replacement:
  "bound ex_indexToWorld ex_toT ex_limits_max ex_limits_min ex_replace_heap ex_replace
     = Inr (Box (Vec3 (- 1 / 2) (- 1 / 2) (- 1 / 2)) (Vec3 (19 / 2) (19 / 2) (19 / 2))) \<and>
   worldBound ex_indexToWorld ex_toT (ex_replace_heap ! 1) (1 / 2)
     = Inr (Box (Vec3 (3 / 2) (3 / 2) (3 / 2)) (Vec3 (11 / 2) (11 / 2) (11 / 2))) \<and>
   inside (Box (Vec3 (3 / 2) (3 / 2) (3 / 2)) (Vec3 (11 / 2) (11 / 2) (11 / 2)))
          (Box (Vec3 (- 1 / 2) (- 1 / 2) (- 1 / 2)) (Vec3 (19 / 2) (19 / 2) (19 / 2 :: rat))) \<and>
   bound ex_indexToWorld ex_toT ex_limits_max ex_limits_min ex_replace_heap
       (insertGrid ex_replace_heap ex_replace 1)
     = Inr (Box (Vec3 (3 / 2) (3 / 2) (3 / 2)) (Vec3 (11 / 2) (11 / 2) (11 / 2))) \<and>
   bound ex_indexToWorld ex_toT ex_limits_max ex_limits_min ex_replace_heap
       (insertGrid ex_replace_heap ex_replace 1)
     \<noteq> bound ex_indexToWorld ex_toT ex_limits_max ex_limits_min ex_replace_heap ex_replace"
proof -
  have b: "bound ex_indexToWorld ex_toT ex_limits_max ex_limits_min ex_replace_heap ex_replace
     = Inr (Box (Vec3 (- 1 / 2) (- 1 / 2) (- 1 / 2)) (Vec3 (19 / 2) (19 / 2) (19 / 2)))"
    by (simp add: bound_def ex_replace_simps ex_replace_worldBound)
       (simp add: extendBy_def Box_empty_def ex_limits_max_def ex_limits_min_def)
  have a: "bound ex_indexToWorld ex_toT ex_limits_max ex_limits_min ex_replace_heap
       (insertGrid ex_replace_heap ex_replace (Suc 0))
     = Inr (Box (Vec3 (3 / 2) (3 / 2) (3 / 2)) (Vec3 (11 / 2) (11 / 2) (11 / 2)))"
    by (simp add: bound_def ex_replace_simps ex_replace_worldBound)
       (simp add: extendBy_def Box_empty_def ex_limits_max_def ex_limits_min_def)
  show ?thesis
    by (simp add: a b ex_replace_worldBound inside_def)
qed

section \<open>Metadata of a grid\<close>



section \<open>The size estimate of the memory buffer\<close>

text \<open>
  C9, as amended. When \<^verbatim>\<open>file_mem_bytes\<close> cannot be read for a grid, \<^verbatim>\<open>memoryBuffer()\<close>
  logs a warning, reads no further estimate, and calls \<^verbatim>\<open>reserve\<close> with the sum of the
  estimates read for the grids before that one, read as an unsigned size. When that call
  throws (the size exceeds the vector's \<^verbatim>\<open>max_size()\<close>, or it is not zero and cannot be
  allocated), the exception leaves \<^verbatim>\<open>memoryBuffer()\<close>; otherwise the grids are serialised
  and the buffer is returned with that capacity reserved. When every estimate is read the
  same happens without the warning, with the whole sum. Whenever a buffer is returned its
  contents are what the stream writer writes for the grids, whatever the estimate was.
\<close>

theorem memoryBuffer_estimate_failure:
  "(m_grids obj = pre @ bad # post \<and>
    map (\<lambda>a. metaValue_int64 (h ! a) ''file_mem_bytes'') pre = map Inr vs \<and>
    metaValue_int64 (h ! bad) ''file_mem_bytes'' = Inl e \<longrightarrow>
      memoryBuffer sw max_size al h obj
        = ([(Warning, ''VDBObject::memoryBuffer'', ''Unable to estimate vdb size.'')],
           if unat (sum_list vs) > max_size then Inl length_error
           else if unat (sum_list vs) \<noteq> 0 \<and> \<not> al (unat (sum_list vs)) then Inl bad_alloc
           else Inr \<lparr>readable = sw (map (\<lambda>a. h ! a) (m_grids obj)),
                      reserved = unat (sum_list vs)\<rparr>)) \<and>
   (map (\<lambda>a. metaValue_int64 (h ! a) ''file_mem_bytes'') (m_grids obj) = map Inr ws \<longrightarrow>
      memoryBuffer sw max_size al h obj
        = ([],
           if unat (sum_list ws) > max_size then Inl length_error
           else if unat (sum_list ws) \<noteq> 0 \<and> \<not> al (unat (sum_list ws)) then Inl bad_alloc
           else Inr \<lparr>readable = sw (map (\<lambda>a. h ! a) (m_grids obj)),
                      reserved = unat (sum_list ws)\<rparr>)) \<and>
   (\<forall>msgs buf. memoryBuffer sw max_size al h obj = (msgs, Inr buf) \<longrightarrow>
      readable buf = sw (map (\<lambda>a. h ! a) (m_grids obj)))"
proof -
  have a: "memoryBuffer sw max_size al h obj
        = ([(Warning, ''VDBObject::memoryBuffer'', ''Unable to estimate vdb size.'')],
           if unat (sum_list vs) > max_size then Inl length_error
           else if unat (sum_list vs) \<noteq> 0 \<and> \<not> al (unat (sum_list vs)) then Inl bad_alloc
           else Inr \<lparr>readable = sw (map (\<lambda>a. h ! a) (m_grids obj)),
                      reserved = unat (sum_list vs)\<rparr>)"
    if m: "m_grids obj = pre @ bad # post"
      and p: "map (\<lambda>a. metaValue_int64 (h ! a) ''file_mem_bytes'') pre = map Inr vs"
      and b: "metaValue_int64 (h ! bad) ''file_mem_bytes'' = Inl e"
  proof -
    have "estimate_loop h (m_grids obj) 0 = (sum_list vs, Some e)"
      using estimate_loop_caught [OF p b, of post 0] by (simp add: m)
    then show ?thesis by (simp add: memoryBuffer_def reserve_def)
  qed
  have b: "memoryBuffer sw max_size al h obj
        = ([],
           if unat (sum_list ws) > max_size then Inl length_error
           else if unat (sum_list ws) \<noteq> 0 \<and> \<not> al (unat (sum_list ws)) then Inl bad_alloc
           else Inr \<lparr>readable = sw (map (\<lambda>a. h ! a) (m_grids obj)),
                      reserved = unat (sum_list ws)\<rparr>)"
    if p: "map (\<lambda>a. metaValue_int64 (h ! a) ''file_mem_bytes'') (m_grids obj) = map Inr ws"
  proof -
    have "estimate_loop h (m_grids obj) 0 = (sum_list ws, None)"
      using estimate_loop_read [OF p, of 0] by simp
    then show ?thesis by (simp add: memoryBuffer_def reserve_def)
  qed
  have c: "readable buf = sw (map (\<lambda>a. h ! a) (m_grids obj))"
    if "memoryBuffer sw max_size al h obj = (msgs, Inr buf)" for msgs buf
    using that by (auto simp add: memoryBuffer_def Let_def split: prod.splits sum.splits)
  show ?thesis using a b c by blast
qed

theorem memoryBuffer_estimate_failure_witness:
  "m_grids ex_mem = [0] @ 1 # [] \<and>
   map (\<lambda>a. metaValue_int64 (ex_mem_heap ! a) ''file_mem_bytes'') [0] = map Inr [4096] \<and>
   metaValue_int64 (ex_mem_heap ! 1) ''file_mem_bytes'' = Inl (LookupError ''file_mem_bytes'') \<and>
   map (\<lambda>a. metaValue_int64 (ex_mem_heap ! a) ''file_mem_bytes'') (m_grids (removeGrid ex_mem_heap ex_mem ''heat''))
     = map Inr [4096] \<and>
   memoryBuffer ex_Stream_write ex_max_size ex_allocates ex_mem_heap ex_mem
     = ([(Warning, ''VDBObject::memoryBuffer'', ''Unable to estimate vdb size.'')],
        Inr \<lparr>readable = ex_Stream_write (map (\<lambda>a. ex_mem_heap ! a) [0, 1]), reserved = 4096\<rparr>) \<and>
   memoryBuffer ex_Stream_write ex_max_size ex_allocates ex_mem_heap (removeGrid ex_mem_heap ex_mem ''heat'')
     = ([], Inr \<lparr>readable = ex_Stream_write (map (\<lambda>a. ex_mem_heap ! a) [0]), reserved = 4096\<rparr>)"
proof -
  have r: "m_grids (removeGrid ex_mem_heap ex_mem ''heat'') = [0]"
    by (simp add: removeGrid_def ex_mem_simps ex_grid_def)
  show ?thesis
    using memoryBuffer_estimate_failure
      [of ex_mem "[0]" 1 "[]" ex_mem_heap "[4096]" "LookupError ''file_mem_bytes''"
          ex_Stream_write ex_max_size ex_allocates "[4096]"]
      memoryBuffer_estimate_failure
      [of "removeGrid ex_mem_heap ex_mem ''heat''" "[]" 0 "[]" ex_mem_heap "[]" "LookupError ''file_mem_bytes''"
          ex_Stream_write ex_max_size ex_allocates "[4096]"]
    by (simp add: r ex_mem_simps(1) ex_mem_values ex_max_size_def ex_allocates_def)
qed

text \<open>
  A failed estimate does not mean that nothing is reserved, and it can end the call: with a
  first grid whose \<^verbatim>\<open>file_mem_bytes\<close> is 4096 and a second grid without the entry, the
  warning is logged and 4096 bytes are reserved; with a first grid whose entry is -1 the
  warning is logged and \<^verbatim>\<open>reserve\<close> throws \<^verbatim>\<open>std::length_error\<close>; with a first grid whose
  entry is 2 to the power 62, more than the allocator has, it throws \<^verbatim>\<open>std::bad_alloc\<close>.
\<close>

theorem memoryBuffer_reserve_counterexample:
  "memoryBuffer ex_Stream_write ex_max_size ex_allocates ex_mem_heap ex_mem
     = ([(Warning, ''VDBObject::memoryBuffer'', ''Unable to estimate vdb size.'')],
        Inr \<lparr>readable = [1, 2], reserved = 4096\<rparr>) \<and>
   memoryBuffer ex_Stream_write ex_max_size ex_allocates ex_negative_heap ex_negative
     = ([(Warning, ''VDBObject::memoryBuffer'', ''Unable to estimate vdb size.'')], Inl length_error) \<and>
   memoryBuffer ex_Stream_write ex_max_size ex_allocates ex_huge_heap ex_huge
     = ([(Warning, ''VDBObject::memoryBuffer'', ''Unable to estimate vdb size.'')], Inl bad_alloc)"
proof -
  have w: "ex_Stream_write (map (\<lambda>a. ex_mem_heap ! a) (m_grids ex_mem)) = [1, 2]"
    by (simp add: ex_mem_simps ex_Stream_write_def ex_grid_def)
  show ?thesis
    by (simp add: memoryBuffer_def ex_estimates ex_reserves w)
qed

end
